theory Spec2Isabelle
  imports Main "HOL-Library.AList"
begin

section \<open>Python values shared by the models\<close>

text \<open>
  Exceptions are values.  Only the exception classes that the modelled code raises or
  catches appear.  \<open>RequestException\<close> is the base class of the errors of the
  \<open>requests\<close> library; \<open>PlainException\<close> is Python's \<open>Exception\<close> raised directly.
\<close>

datatype py_exc =
    ValueError string
  | AttributeError string
  | IntegrityError string
  | OSError string
  | DoesNotExist
  | RequestException string
  | PlainException string

text \<open>\<open>str(n)\<close> for an integer: decimal digits, with a minus sign when negative.\<close>

definition digit_char :: "nat \<Rightarrow> char" where
  "digit_char d = ''0123456789'' ! d"

fun str_nat :: "nat \<Rightarrow> string" where
  "str_nat n =
     (if n < 10 then [digit_char n]
      else str_nat (n div 10) @ [digit_char (n mod 10)])"

definition str_int :: "int \<Rightarrow> string" where
  "str_int i = (if i < 0 then CHR ''-'' # str_nat (nat (- i)) else str_nat (nat i))"

text \<open>
  Strings are lists of characters; a character stands for a code point below 256.
  \<open>is_space\<close> is \<open>str.isspace\<close> and \<open>lower_char\<close> is \<open>str.lower\<close> on these code
  points.
\<close>

definition is_space :: "char \<Rightarrow> bool" where
  "is_space c \<longleftrightarrow>
     c \<in> set [CHR 0x09, CHR 0x0A, CHR 0x0B, CHR 0x0C, CHR 0x0D, CHR 0x1C, CHR 0x1D,
               CHR 0x1E, CHR 0x1F, CHR 0x20, CHR 0x85, CHR 0xA0]"

definition upper_chars :: string where
  "upper_chars =
     ''ABCDEFGHIJKLMNOPQRSTUVWXYZ'' @
     [CHR 0xC0, CHR 0xC1, CHR 0xC2, CHR 0xC3, CHR 0xC4, CHR 0xC5, CHR 0xC6, CHR 0xC7,
      CHR 0xC8, CHR 0xC9, CHR 0xCA, CHR 0xCB, CHR 0xCC, CHR 0xCD, CHR 0xCE, CHR 0xCF,
      CHR 0xD0, CHR 0xD1, CHR 0xD2, CHR 0xD3, CHR 0xD4, CHR 0xD5, CHR 0xD6,
      CHR 0xD8, CHR 0xD9, CHR 0xDA, CHR 0xDB, CHR 0xDC, CHR 0xDD, CHR 0xDE]"

definition lower_chars :: string where
  "lower_chars =
     ''abcdefghijklmnopqrstuvwxyz'' @
     [CHR 0xE0, CHR 0xE1, CHR 0xE2, CHR 0xE3, CHR 0xE4, CHR 0xE5, CHR 0xE6, CHR 0xE7,
      CHR 0xE8, CHR 0xE9, CHR 0xEA, CHR 0xEB, CHR 0xEC, CHR 0xED, CHR 0xEE, CHR 0xEF,
      CHR 0xF0, CHR 0xF1, CHR 0xF2, CHR 0xF3, CHR 0xF4, CHR 0xF5, CHR 0xF6,
      CHR 0xF8, CHR 0xF9, CHR 0xFA, CHR 0xFB, CHR 0xFC, CHR 0xFD, CHR 0xFE]"

definition lower_char :: "char \<Rightarrow> char" where
  "lower_char c = (case map_of (zip upper_chars lower_chars) c of Some d \<Rightarrow> d | None \<Rightarrow> c)"

definition lower :: "string \<Rightarrow> string" where
  "lower s = map lower_char s"

definition strip :: "string \<Rightarrow> string" where
  "strip s = rev (dropWhile is_space (rev (dropWhile is_space s)))"

text \<open>
  \<open>s.split()\<close>: the maximal runs of characters that are not white space.  \<open>w\<close> holds the
  current run, reversed.
\<close>

fun split_from :: "string \<Rightarrow> string \<Rightarrow> string list" where
  "split_from w [] = (if w = [] then [] else [rev w])"
| "split_from w (c # cs) =
     (if is_space c
      then (if w = [] then split_from [] cs else rev w # split_from [] cs)
      else split_from (c # w) cs)"

definition split_ws :: "string \<Rightarrow> string list" where
  "split_ws s = split_from [] s"

text \<open>\<open>' '.join(ws)\<close>.\<close>

fun join_space :: "string list \<Rightarrow> string" where
  "join_space [] = []"
| "join_space [w] = w"
| "join_space (w # ws) = w @ CHR '' '' # join_space ws"

text \<open>\<open>d.get(k, default)\<close> on a dictionary with string values.\<close>

definition dict_get :: "(string \<rightharpoonup> string) \<Rightarrow> string \<Rightarrow> string \<Rightarrow> string" where
  "dict_get d k dflt = (case d k of None \<Rightarrow> dflt | Some v \<Rightarrow> v)"

text \<open>\<open>str(e)\<close> of an exception: its message.\<close>

fun str_exc :: "py_exc \<Rightarrow> string" where
  "str_exc (ValueError m) = m"
| "str_exc (AttributeError m) = m"
| "str_exc (IntegrityError m) = m"
| "str_exc (OSError m) = m"
| "str_exc DoesNotExist = ''matching query does not exist.''"
| "str_exc (RequestException m) = m"
| "str_exc (PlainException m) = m"

section \<open>Webhooks (webhooks/models.py)\<close>

text \<open>
  The \<open>Webhook\<close> row.  Counters are Python integers.  Timestamps are readings of a clock
  in seconds.
\<close>

record webhook =
  url :: string
  event_type :: string
  wh_is_active :: bool
  secret :: string
  total_triggers :: int
  successful_triggers :: int
  failed_triggers :: int
  last_triggered_at :: "nat option"
  last_success_at :: "nat option"
  last_failure_at :: "nat option"

text \<open>A webhook as the model's field defaults create it: every counter is 0.\<close>

definition created_webhook :: "string \<Rightarrow> string \<Rightarrow> bool \<Rightarrow> string \<Rightarrow> webhook" where
  "created_webhook u e a s =
     \<lparr>url = u, event_type = e, wh_is_active = a, secret = s,
      total_triggers = 0, successful_triggers = 0, failed_triggers = 0,
      last_triggered_at = None, last_success_at = None, last_failure_at = None\<rparr>"

text \<open>\<open>Webhook.record_trigger(success)\<close> at clock reading \<open>now\<close>.\<close>

definition record_trigger :: "nat \<Rightarrow> bool \<Rightarrow> webhook \<Rightarrow> webhook" where
  "record_trigger now success w =
     (let w1 = w\<lparr>total_triggers := total_triggers w + 1, last_triggered_at := Some now\<rparr>
      in if success
         then w1\<lparr>successful_triggers := successful_triggers w1 + 1, last_success_at := Some now\<rparr>
         else w1\<lparr>failed_triggers := failed_triggers w1 + 1, last_failure_at := Some now\<rparr>)"

text \<open>A sequence of \<open>record_trigger\<close> calls, each with its clock reading and its flag.\<close>

fun record_triggers :: "webhook \<Rightarrow> (nat \<times> bool) list \<Rightarrow> webhook" where
  "record_triggers w [] = w"
| "record_triggers w ((now, success) # calls) = record_triggers (record_trigger now success w) calls"

definition triggers_balanced :: "webhook \<Rightarrow> bool" where
  "triggers_balanced w \<longleftrightarrow> successful_triggers w + failed_triggers w = total_triggers w"

text \<open>The \<open>WebhookLog\<close> row: one delivery attempt.\<close>

record webhook_log =
  log_webhook :: nat
  log_event_type :: string
  payload :: string
  status_code :: "int option"
  response_body :: string
  response_time :: "nat option"
  error :: string
  is_successful :: bool
  retry_count :: nat

text \<open>The two tables the delivery task reads and writes.\<close>

record webhook_tables =
  webhooks :: "nat \<rightharpoonup> webhook"
  webhook_logs :: "webhook_log list"

section \<open>Webhook delivery (webhooks/tasks.py)\<close>

text \<open>
  What \<open>requests.post\<close> gives back: a response (status code, body text, elapsed time) or
  a \<open>RequestException\<close> with its message.
\<close>

datatype http_result = Response int string nat | TransportError string

text \<open>
  How one execution of a task body ends: it returns, it raises, or it asks the task layer
  for a retry (Celery's \<open>Retry\<close> exception, raised by \<open>self.retry\<close>).
\<close>

datatype 'a outcome = Returned 'a | Raised py_exc | RetryRequested py_exc

definition max_retries :: nat where
  "max_retries = 3"

definition default_retry_delay :: nat where
  "default_retry_delay = 60"

text \<open>
  Celery's \<open>self.retry(exc=e)\<close> in an execution whose \<open>request.retries\<close> is \<open>retries\<close>:
  past the bound the original exception is raised, otherwise a retry is requested.
\<close>

definition task_retry :: "nat \<Rightarrow> py_exc \<Rightarrow> 'a outcome" where
  "task_retry retries exc = (if retries + 1 > max_retries then Raised exc else RetryRequested exc)"

text \<open>
  One execution of the body of \<open>send_webhook\<close>.  \<open>retries\<close> is \<open>self.request.retries\<close>,
  \<open>result\<close> is what the POST to the webhook's URL gives in this execution.  The signature
  and the headers do not influence anything the task stores, so they are not modelled.
  The three \<open>except\<close> branches are the three ways of leaving: the non-2xx branch raises a
  plain \<open>Exception\<close>, which only the last handler (log and re-raise) catches.
\<close>

definition send_webhook ::
  "nat \<Rightarrow> http_result \<Rightarrow> nat \<Rightarrow> nat \<Rightarrow> string \<Rightarrow> webhook_tables \<Rightarrow> int outcome \<times> webhook_tables" where
  "send_webhook retries result now webhook_id pl db =
     (case webhooks db webhook_id of
        None \<Rightarrow> (Raised DoesNotExist, db)
      | Some wh \<Rightarrow>
          (case result of
             Response code text elapsed \<Rightarrow>
               (let ok = (200 \<le> code \<and> code < 300);
                    entry = \<lparr>log_webhook = webhook_id, log_event_type = event_type wh,
                             payload = pl, status_code = Some code,
                             response_body = take 1000 text, response_time = Some elapsed,
                             error = [], is_successful = ok, retry_count = retries\<rparr>;
                    db1 = db\<lparr>webhook_logs := webhook_logs db @ [entry]\<rparr>;
                    db2 = db1\<lparr>webhooks := (webhooks db1)(webhook_id \<mapsto> record_trigger now ok wh)\<rparr>
                in if \<not> ok
                   then (Raised (PlainException (''Webhook failed with status '' @ str_int code)), db2)
                   else (Returned code, db2))
           | TransportError msg \<Rightarrow>
               (let entry = \<lparr>log_webhook = webhook_id, log_event_type = event_type wh,
                             payload = pl, status_code = None,
                             response_body = [], response_time = None,
                             error = msg, is_successful = False, retry_count = retries\<rparr>;
                    db1 = db\<lparr>webhook_logs := webhook_logs db @ [entry]\<rparr>;
                    db2 = db1\<lparr>webhooks := (webhooks db1)(webhook_id \<mapsto> record_trigger now False wh)\<rparr>
                in (task_retry retries (RequestException msg), db2))))"

text \<open>
  The task layer: it executes the body, and executes it again, \<open>default_retry_delay\<close>
  seconds later and with \<open>request.retries\<close> one higher, when the body asked for a retry.
  \<open>endpoint n\<close> is the answer of the target to the execution whose retry count is \<open>n\<close>.
\<close>

function deliver ::
  "(nat \<Rightarrow> http_result) \<Rightarrow> nat \<Rightarrow> nat \<Rightarrow> nat \<Rightarrow> string \<Rightarrow> webhook_tables \<Rightarrow> int outcome \<times> webhook_tables" where
  "deliver endpoint retries now webhook_id pl db =
     (case send_webhook retries (endpoint retries) now webhook_id pl db of
        (RetryRequested exc, db') \<Rightarrow>
          (if retries < max_retries
           then deliver endpoint (Suc retries) (now + default_retry_delay) webhook_id pl db'
           else (Raised exc, db'))
      | (out, db') \<Rightarrow> (out, db'))"
  by pat_completeness auto
termination
  by (relation "measure (\<lambda>(endpoint, retries, now, webhook_id, pl, db). max_retries - retries)") auto

section \<open>Products and upload jobs (products/models.py)\<close>

text \<open>
  A \<open>Product\<close> object.  The table holds each row with its primary key; the unique index
  is on \<open>sku_lower\<close>.
\<close>

record product =
  sku :: string
  sku_lower :: string
  name :: string
  description :: string
  is_active :: bool

type_synonym product_table = "(nat \<times> product) list"

datatype job_status = Pending | Processing | Completed | Failed

record error_entry =
  entry_row :: int
  entry_error :: string
  entry_timestamp :: nat

record upload_job =
  status :: job_status
  total_rows :: int
  processed_rows :: int
  success_count :: int
  error_count :: int
  created_count :: int
  updated_count :: int
  skipped_count :: int
  error_details :: "error_entry list option"
  started_at :: "nat option"
  completed_at :: "nat option"

text \<open>An upload job as the model's field defaults create it.\<close>

definition created_job :: upload_job where
  "created_job =
     \<lparr>status = Pending, total_rows = 0, processed_rows = 0, success_count = 0,
      error_count = 0, created_count = 0, updated_count = 0, skipped_count = 0,
      error_details = Some [], started_at = None, completed_at = None\<rparr>"

definition add_error :: "nat \<Rightarrow> int \<Rightarrow> string \<Rightarrow> upload_job \<Rightarrow> upload_job" where
  "add_error now row_number error_message j =
     j\<lparr>error_details :=
          Some ((case error_details j of None \<Rightarrow> [] | Some es \<Rightarrow> es) @
                [\<lparr>entry_row = row_number, entry_error = error_message, entry_timestamp = now\<rparr>]),
       error_count := error_count j + 1\<rparr>"

definition mark_as_processing :: "nat \<Rightarrow> upload_job \<Rightarrow> upload_job" where
  "mark_as_processing now j = j\<lparr>status := Processing, started_at := Some now\<rparr>"

definition mark_as_completed :: "nat \<Rightarrow> upload_job \<Rightarrow> upload_job" where
  "mark_as_completed now j = j\<lparr>status := Completed, completed_at := Some now\<rparr>"

text \<open>\<open>mark_as_failed(error_message)\<close>; an empty message is falsy and adds no entry.\<close>

definition mark_as_failed :: "nat \<Rightarrow> string \<Rightarrow> upload_job \<Rightarrow> upload_job" where
  "mark_as_failed now error_message j =
     (let j1 = j\<lparr>status := Failed, completed_at := Some now\<rparr>
      in if error_message \<noteq> [] then add_error now 0 error_message j1 else j1)"

subsection \<open>The progress percentage\<close>

text \<open>
  \<open>progress_percentage\<close> computes \<open>int((processed_rows / total_rows) * 100)\<close> on Python
  floats, which are binary64 numbers.  A positive binary64 number is written here as the
  fraction it denotes exactly, a pair of numerator and denominator.  \<open>to_double n d\<close> is the
  binary64 number nearest to \<open>n / d\<close>: a significand of 53 bits, ties to the even
  significand.  Both the division of two integers and the product of two floats round
  their exact result this way.  The exponent range of binary64 is not modelled; the
  quotients of row counts stay far inside it.
\<close>

fun bit_length :: "nat \<Rightarrow> nat" where
  "bit_length n = (if n = 0 then 0 else Suc (bit_length (n div 2)))"

definition round_half_even :: "nat \<Rightarrow> nat \<Rightarrow> nat" where
  "round_half_even n d =
     (let q = n div d; r = n mod d
      in if 2 * r < d then q
         else if 2 * r > d then q + 1
         else if even q then q else q + 1)"

definition scaled :: "nat \<Rightarrow> nat \<Rightarrow> int \<Rightarrow> nat \<times> nat" where
  "scaled n d s = (if s \<ge> 0 then (n * 2 ^ nat s, d) else (n, d * 2 ^ nat (- s)))"

definition to_double :: "nat \<Rightarrow> nat \<Rightarrow> nat \<times> nat" where
  "to_double n d =
     (let s0 = 53 + int (bit_length d) - int (bit_length n);
          s = (case scaled n d s0 of (n0, d0) \<Rightarrow> if n0 \<ge> 2 ^ 53 * d0 then s0 - 1 else s0)
      in case scaled n d s of
           (n1, d1) \<Rightarrow>
             (let m = round_half_even n1 d1
              in if s \<ge> 0 then (m, 2 ^ nat s) else (m * 2 ^ nat (- s), 1)))"

definition progress_percentage :: "upload_job \<Rightarrow> int" where
  "progress_percentage j =
     (if total_rows j = 0 then 0
      else if processed_rows j = 0 then 0
      else case to_double (nat \<bar>processed_rows j\<bar>) (nat \<bar>total_rows j\<bar>) of
        (a, b) \<Rightarrow>
          (case to_double (a * 100) b of
             (c, d) \<Rightarrow>
               (if (processed_rows j < 0) = (total_rows j < 0)
                then int (c div d) else - int (c div d))))"

text \<open>
  The percentage as the specification words it: \<open>floor(processed / total * 100)\<close> in exact
  arithmetic, and 0 when \<open>total_rows\<close> is 0.
\<close>

definition spec_progress_percentage :: "upload_job \<Rightarrow> int" where
  "spec_progress_percentage j =
     (if total_rows j = 0 then 0 else (processed_rows j * 100) div total_rows j)"

section \<open>Reading the file (csv.DictReader)\<close>

text \<open>
  A CSV file is the list of records that \<open>csv.reader\<close> yields, the header record first;
  a blank line is the empty record.  \<open>DictReader\<close> takes the first record as the field
  names, skips empty records, and turns every other record into a dictionary: the fields
  in the order of the field names, a missing value as \<open>None\<close>, and surplus values as one
  list under the key \<open>None\<close>, which comes last.
\<close>

type_synonym csv_file = "string list list"

record csv_row =
  items :: "(string \<times> string option) list"
  surplus :: "string list option"

definition fieldnames :: "csv_file \<Rightarrow> string list option" where
  "fieldnames f = (case f of [] \<Rightarrow> None | h # _ \<Rightarrow> Some h)"

definition dict_row :: "string list \<Rightarrow> string list \<Rightarrow> csv_row" where
  "dict_row names r =
     (let d = fold (\<lambda>(k, v). AList.update k (Some v)) (zip names r) []
      in if length names < length r
         then \<lparr>items = d, surplus = Some (drop (length names) r)\<rparr>
         else \<lparr>items = fold (\<lambda>k. AList.update k None) (drop (length r) names) d,
               surplus = None\<rparr>)"

definition dict_rows :: "csv_file \<Rightarrow> csv_row list" where
  "dict_rows f =
     (case f of [] \<Rightarrow> [] | h # rs \<Rightarrow> map (dict_row h) (filter (\<lambda>r. r \<noteq> []) rs))"

section \<open>The CSV importer (products/services/csv_importer.py)\<close>

record stats =
  total :: int
  processed :: int
  created :: int
  updated :: int
  skipped :: int
  errors :: int

text \<open>
  What an import reads and writes: the importer's \<open>stats\<close>, its upload job and the
  product table.  \<open>skip_duplicates\<close> is the importer's option.
\<close>

record importer =
  skip_duplicates :: bool
  imp_stats :: stats
  upload_job :: upload_job
  products :: product_table

text \<open>\<open>CSVImporter(...)\<close>: the statistics start at 0.\<close>

definition new_importer :: "bool \<Rightarrow> upload_job \<Rightarrow> product_table \<Rightarrow> importer" where
  "new_importer skip j tbl =
     \<lparr>skip_duplicates = skip,
      imp_stats = \<lparr>total = 0, processed = 0, created = 0, updated = 0, skipped = 0, errors = 0\<rparr>,
      upload_job = j, products = tbl\<rparr>"

definition CHUNK_SIZE :: nat where
  "CHUNK_SIZE = 1000"

definition REQUIRED_COLUMNS :: "string list" where
  "REQUIRED_COLUMNS = [''name'', ''sku'']"

definition validate_headers :: "string list \<Rightarrow> bool \<times> string" where
  "validate_headers headers =
     (let headers_lower = map (\<lambda>h. strip (lower h)) headers
      in case find (\<lambda>required. required \<notin> set headers_lower) REQUIRED_COLUMNS of
           Some required \<Rightarrow> (False, ''Missing required column: '' @ required)
         | None \<Rightarrow> (True, []))"

text \<open>The cleaned value of one cell: white space runs collapsed, ends trimmed.\<close>

definition clean_value :: "string option \<Rightarrow> string" where
  "clean_value v = (case v of None \<Rightarrow> [] | Some s \<Rightarrow> strip (join_space (split_ws s)))"

text \<open>
  \<open>normalize_row\<close>.  The loop over the items fills the dictionary \<open>normalized\<close>; the key
  \<open>None\<close> of a row with surplus values has no \<open>lower\<close>, so such a row raises
  \<open>AttributeError\<close> at the end of the loop.
\<close>

definition none_has_no_lower :: string where
  "none_has_no_lower =
     CHR 0x27 # ''NoneType'' @ CHR 0x27 # '' object has no attribute '' @ CHR 0x27 # ''lower'' @ [CHR 0x27]"

definition normalize_row :: "csv_row \<Rightarrow> py_exc + (string \<rightharpoonup> string)" where
  "normalize_row r =
     (let normalized = fold (\<lambda>(k, v) d. d(strip (lower k) \<mapsto> clean_value v)) (items r) Map.empty
      in if surplus r \<noteq> None
         then Inl (AttributeError none_has_no_lower)
         else if normalized ''sku'' = None \<or> strip (dict_get normalized ''sku'' []) = []
         then Inl (ValueError ''SKU is required and cannot be empty'')
         else if normalized ''name'' = None \<or> strip (dict_get normalized ''name'' []) = []
         then Inl (ValueError ''Name is required and cannot be empty'')
         else
           (let n1 = normalized(''sku'' \<mapsto> strip (dict_get normalized ''sku'' []))
            in if dict_get n1 ''sku'' [] = []
               then Inl (ValueError ''SKU cannot be empty or contain only whitespace'')
               else
                 (let n2 = (if n1 ''description'' = None \<or> dict_get n1 ''description'' [] = []
                            then n1(''description'' \<mapsto> []) else n1);
                      n3 = n2(''sku'' \<mapsto> take 255 (dict_get n2 ''sku'' []));
                      n4 = n3(''name'' \<mapsto> strip (take 500 (dict_get n3 ''name'' [])))
                  in Inr n4)))"

text \<open>
  The first loop of \<open>process_chunk\<close>: \<open>idx\<close> is the index that \<open>enumerate\<close> gives the
  row.  A row that fails is counted as an error and as a skip, and \<open>add_error\<close> gets the
  number \<open>stats['processed'] + idx + 1\<close>.
\<close>

fun normalize_rows ::
  "nat \<Rightarrow> nat \<Rightarrow> csv_row list \<Rightarrow> importer \<Rightarrow> (string \<rightharpoonup> string) list \<times> importer" where
  "normalize_rows now idx [] imp = ([], imp)"
| "normalize_rows now idx (r # rs) imp =
     (case normalize_row r of
        Inr normalized \<Rightarrow>
          (case normalize_rows now (idx + 1) rs imp of
             (ns, imp') \<Rightarrow> (normalized # ns, imp'))
      | Inl e \<Rightarrow>
          normalize_rows now (idx + 1) rs
            (imp\<lparr>imp_stats := (imp_stats imp)\<lparr>errors := errors (imp_stats imp) + 1,
                                                skipped := skipped (imp_stats imp) + 1\<rparr>,
                 upload_job := add_error now (processed (imp_stats imp) + int idx + 1)
                                 (str_exc e) (upload_job imp)\<rparr>))"

text \<open>
  The second loop: the lower-cased SKUs of the chunk and the rows whose trimmed SKU is
  not empty.
\<close>

fun filter_valid ::
  "(string \<rightharpoonup> string) list \<Rightarrow> stats \<Rightarrow> string list \<times> (string \<rightharpoonup> string) list \<times> stats" where
  "filter_valid [] st = ([], [], st)"
| "filter_valid (r # rs) st =
     (let s = strip (dict_get r ''sku'' [])
      in if s \<noteq> []
         then (case filter_valid rs st of (ks, vs, st') \<Rightarrow> (lower s # ks, r # vs, st'))
         else filter_valid rs (st\<lparr>errors := errors st + 1, skipped := skipped st + 1\<rparr>))"

text \<open>
  \<open>Product.objects.filter(sku_lower__in=skus_lower).in_bulk(field_name='sku_lower')\<close>:
  the fetched objects by their \<open>sku_lower\<close>.
\<close>

definition in_bulk :: "string list \<Rightarrow> product_table \<Rightarrow> (string \<rightharpoonup> nat \<times> product)" where
  "in_bulk skus_lower tbl =
     fold (\<lambda>(i, p) d. d(sku_lower p \<mapsto> (i, p)))
          (filter (\<lambda>(i, p). sku_lower p \<in> set skus_lower) tbl) Map.empty"

text \<open>
  The third loop.  The fetched objects are mutable and shared: \<open>existing\<close> is the store of
  these objects, and \<open>products_to_update\<close> holds references into it (the keys), so that an
  object the loop appends twice carries its last values in both places.
\<close>

fun partition_rows ::
  "(string \<rightharpoonup> string) list \<Rightarrow> (string \<rightharpoonup> nat \<times> product) \<Rightarrow> product list \<Rightarrow> string list \<Rightarrow>
     (string \<rightharpoonup> nat \<times> product) \<times> product list \<times> string list" where
  "partition_rows [] existing to_create to_update = (existing, to_create, to_update)"
| "partition_rows (r # rs) existing to_create to_update =
     (let k = lower (dict_get r ''sku'' [])
      in case existing k of
           Some (i, p) \<Rightarrow>
             partition_rows rs
               (existing(k \<mapsto> (i, p\<lparr>sku := dict_get r ''sku'' [],
                                      sku_lower := strip (lower (dict_get r ''sku'' [])),
                                      name := dict_get r ''name'' [],
                                      description := dict_get r ''description'' []\<rparr>)))
               to_create (to_update @ [k])
         | None \<Rightarrow>
             partition_rows rs existing
               (to_create @ [\<lparr>sku = dict_get r ''sku'' [],
                              sku_lower = strip (lower (dict_get r ''sku'' [])),
                              name = dict_get r ''name'' [],
                              description = dict_get r ''description'' [],
                              is_active = True\<rparr>])
               to_update)"

subsection \<open>The product table\<close>

definition fresh_pk :: "product_table \<Rightarrow> nat" where
  "fresh_pk tbl = Suc (foldr max (map fst tbl) 0)"

definition unique_violation :: py_exc where
  "unique_violation = IntegrityError ''duplicate key value violates unique constraint''"

text \<open>
  \<open>bulk_create(objs, ignore_conflicts)\<close>: the rows are inserted in order; a row whose
  \<open>sku_lower\<close> is in the table is dropped when conflicts are ignored and fails the
  statement otherwise.
\<close>

fun bulk_create :: "product list \<Rightarrow> bool \<Rightarrow> product_table \<Rightarrow> py_exc + product_table" where
  "bulk_create [] ignore_conflicts tbl = Inr tbl"
| "bulk_create (p # ps) ignore_conflicts tbl =
     (if sku_lower p \<in> set (map (\<lambda>(i, q). sku_lower q) tbl)
      then (if ignore_conflicts then bulk_create ps ignore_conflicts tbl else Inl unique_violation)
      else bulk_create ps ignore_conflicts (tbl @ [(fresh_pk tbl, p)]))"

text \<open>
  \<open>bulk_update(objs, ['sku', 'name', 'description', 'sku_lower'])\<close>: the row with the
  primary key of each object gets the object's four fields; the unique index is checked
  for each row.
\<close>

fun bulk_update :: "(nat \<times> product) list \<Rightarrow> product_table \<Rightarrow> py_exc + product_table" where
  "bulk_update [] tbl = Inr tbl"
| "bulk_update ((i, p) # ps) tbl =
     (if \<exists>(j, q) \<in> set tbl. j \<noteq> i \<and> sku_lower q = sku_lower p
      then Inl unique_violation
      else bulk_update ps
             (map (\<lambda>(j, q). if j = i
                             then (j, q\<lparr>sku := sku p, name := name p,
                                       description := description p, sku_lower := sku_lower p\<rparr>)
                             else (j, q)) tbl))"

text \<open>\<open>Product.save()\<close> of a new object: \<open>sku_lower\<close> is set again, the row is inserted.\<close>

definition save :: "product \<Rightarrow> product_table \<Rightarrow> py_exc + product_table" where
  "save p tbl =
     (let p' = p\<lparr>sku_lower := strip (lower (sku p))\<rparr>
      in if sku_lower p' \<in> set (map (\<lambda>(i, q). sku_lower q) tbl)
         then Inl unique_violation
         else Inr (tbl @ [(fresh_pk tbl, p')]))"

subsection \<open>The bulk operations of a chunk\<close>

text \<open>
  The body of \<open>with transaction.atomic()\<close>.  It gives the new table with the local counts
  \<open>created_count\<close> and \<open>updated_count\<close>, or the exception; the statistics are Python state, so what the
  body added to \<open>skipped\<close> before it raised stays, while the table is rolled back by the
  caller.
\<close>

definition atomic_bulk ::
  "bool \<Rightarrow> product list \<Rightarrow> (nat \<times> product) list \<Rightarrow> stats \<Rightarrow> product_table \<Rightarrow>
     (py_exc \<times> stats) + (product_table \<times> int \<times> int \<times> stats)" where
  "atomic_bulk skip to_create to_update st tbl =
     (case (if to_create \<noteq> []
            then (case bulk_create to_create skip tbl of
                    Inl e \<Rightarrow> Inl (e, st)
                  | Inr tbl1 \<Rightarrow>
                      (let before_count = int (length tbl);
                           after_count = int (length tbl1);
                           n_created = after_count - before_count;
                           dup = int (length to_create) - n_created
                       in Inr (tbl1, n_created,
                               if dup > 0 then st\<lparr>skipped := skipped st + dup\<rparr> else st)))
            else Inr (tbl, 0, st)) of
        Inl err \<Rightarrow> Inl err
      | Inr (tbl1, n_created, st1) \<Rightarrow>
          (if to_update \<noteq> []
           then (case bulk_update to_update tbl1 of
                   Inl e \<Rightarrow> Inl (e, st1)
                 | Inr tbl2 \<Rightarrow> Inr (tbl2, n_created, int (length to_update), st1))
           else Inr (tbl1, n_created, 0, st1)))"

text \<open>The \<open>except\<close> branch: each object of the create set is saved on its own.\<close>

fun save_each :: "nat \<Rightarrow> product list \<Rightarrow> importer \<Rightarrow> importer" where
  "save_each now [] imp = imp"
| "save_each now (p # ps) imp =
     (case save p (products imp) of
        Inr tbl \<Rightarrow>
          save_each now ps
            (imp\<lparr>products := tbl,
                 imp_stats := (imp_stats imp)\<lparr>created := created (imp_stats imp) + 1\<rparr>\<rparr>)
      | Inl e \<Rightarrow>
          save_each now ps
            (imp\<lparr>imp_stats := (imp_stats imp)\<lparr>errors := errors (imp_stats imp) + 1,
                                                skipped := skipped (imp_stats imp) + 1\<rparr>,
                 upload_job := add_error now (processed (imp_stats imp))
                                 (''SKU '' @ sku p @ '': '' @ str_exc e) (upload_job imp)\<rparr>))"

definition bulk_stage :: "nat \<Rightarrow> product list \<Rightarrow> (nat \<times> product) list \<Rightarrow> importer \<Rightarrow> importer" where
  "bulk_stage now to_create to_update imp =
     (case atomic_bulk (skip_duplicates imp) to_create to_update (imp_stats imp) (products imp) of
        Inr (tbl, n_created, n_updated, st) \<Rightarrow>
          imp\<lparr>products := tbl,
              imp_stats := st\<lparr>created := created st + n_created,
                               updated := updated st + n_updated\<rparr>\<rparr>
      | Inl (e, st) \<Rightarrow> save_each now to_create (imp\<lparr>imp_stats := st\<rparr>))"

definition process_chunk :: "nat \<Rightarrow> csv_row list \<Rightarrow> importer \<Rightarrow> importer" where
  "process_chunk now rows imp =
     (if rows = [] then imp
      else case normalize_rows now 0 rows imp of
        (normalized_rows, imp1) \<Rightarrow>
          if normalized_rows = [] then imp1
          else case filter_valid normalized_rows (imp_stats imp1) of
            (skus_lower, valid_rows, st2) \<Rightarrow>
              if valid_rows = [] then imp1\<lparr>imp_stats := st2\<rparr>
              else case partition_rows valid_rows (in_bulk skus_lower (products imp1)) [] [] of
                (existing, to_create, to_update) \<Rightarrow>
                  bulk_stage now to_create (List.map_filter existing to_update)
                    (imp1\<lparr>imp_stats := st2\<rparr>))"

text \<open>
  \<open>update_progress\<close>: the statistics are written to the job.  The copy that goes to the
  cache is not modelled.
\<close>

definition update_progress :: "importer \<Rightarrow> importer" where
  "update_progress imp =
     (let st = imp_stats imp
      in imp\<lparr>upload_job := (upload_job imp)
                \<lparr>processed_rows := processed st,
                 success_count := created st + updated st,
                 error_count := errors st,
                 created_count := created st,
                 updated_count := updated st,
                 skipped_count := skipped st\<rparr>\<rparr>)"

text \<open>
  The second pass of \<open>import_csv\<close>: \<open>chunk\<close> is the list being filled, \<open>chunk_size\<close> is
  \<open>CHUNK_SIZE\<close>.
\<close>

fun process_rows :: "nat \<Rightarrow> nat \<Rightarrow> csv_row list \<Rightarrow> csv_row list \<Rightarrow> importer \<Rightarrow> importer" where
  "process_rows now chunk_size [] chunk imp =
     (if chunk \<noteq> [] then update_progress (process_chunk now chunk imp) else imp)"
| "process_rows now chunk_size (r # rs) chunk imp =
     (let chunk1 = chunk @ [r];
          imp1 = imp\<lparr>imp_stats := (imp_stats imp)\<lparr>processed := processed (imp_stats imp) + 1\<rparr>\<rparr>
      in if length chunk1 \<ge> chunk_size
         then process_rows now chunk_size rs [] (update_progress (process_chunk now chunk1 imp1))
         else process_rows now chunk_size rs chunk1 imp1)"

text \<open>
  \<open>import_csv\<close>, with the chunk size as a parameter.  \<open>opened\<close> is what opening and
  decoding the file gives: its records or the exception.  The result is the returned
  statistics or the exception that is raised again, with the final state.
\<close>

definition import_failed :: "nat \<Rightarrow> py_exc \<Rightarrow> importer \<Rightarrow> (py_exc + stats) \<times> importer" where
  "import_failed now e imp =
     (Inl e, imp\<lparr>upload_job := mark_as_failed now (str_exc e) (upload_job imp)\<rparr>)"

definition import_csv_sized ::
  "nat \<Rightarrow> nat \<Rightarrow> py_exc + csv_file \<Rightarrow> importer \<Rightarrow> (py_exc + stats) \<times> importer" where
  "import_csv_sized chunk_size now opened imp =
     (let imp1 = imp\<lparr>upload_job := mark_as_processing now (upload_job imp)\<rparr>
      in case opened of
           Inl e \<Rightarrow> import_failed now e imp1
         | Inr f \<Rightarrow>
             (case (case fieldnames f of
                      None \<Rightarrow> (True, [])
                    | Some names \<Rightarrow> if names \<noteq> [] then validate_headers names else (True, [])) of
                (False, error_msg) \<Rightarrow> import_failed now (ValueError error_msg) imp1
              | (True, _) \<Rightarrow>
                  (let row_count = int (length (dict_rows f));
                       imp2 = imp1\<lparr>imp_stats := (imp_stats imp1)\<lparr>total := row_count\<rparr>,
                                   upload_job := (upload_job imp1)\<lparr>total_rows := row_count\<rparr>\<rparr>;
                       imp3 = process_rows now chunk_size (dict_rows f) [] imp2;
                       imp4 = imp3\<lparr>upload_job := mark_as_completed now (upload_job imp3)\<rparr>
                   in (Inr (imp_stats imp4), imp4))))"

definition import_csv :: "nat \<Rightarrow> py_exc + csv_file \<Rightarrow> importer \<Rightarrow> (py_exc + stats) \<times> importer" where
  "import_csv = import_csv_sized CHUNK_SIZE"

section \<open>Properties of the webhook statistics\<close>

lemma record_trigger_balanced:
  "triggers_balanced w \<Longrightarrow> triggers_balanced (record_trigger now success w)"
  by (simp add: triggers_balanced_def record_trigger_def Let_def)

lemma record_triggers_balanced:
  "triggers_balanced w \<Longrightarrow> triggers_balanced (record_triggers w calls)"
  by (induction calls arbitrary: w) (auto simp: record_trigger_balanced)

text \<open>
  Claim C8.  Starting from a freshly created webhook, whose counters are all 0, every
  sequence of \<open>record_trigger\<close> calls ends in a state where
  \<open>successful_triggers + failed_triggers = total_triggers\<close>.  The sequence is arbitrary, so
  the equation holds after each single call of any such sequence.
\<close>

theorem record_trigger_invariant:
  "triggers_balanced (record_triggers (created_webhook u e a s) calls)"
  by (rule record_triggers_balanced) (simp add: triggers_balanced_def created_webhook_def)

section \<open>Properties of the webhook delivery\<close>

text \<open>
  Claim C1 says that a target answering HTTP 500 is tried three times.  The code does
  something else: for every webhook that exists, when the target answers 500 the task
  layer runs the body once.  That run writes one log entry, whose \<open>retry_count\<close> is 0,
  adds 1 to \<open>failed_triggers\<close> and to \<open>total_triggers\<close>, leaves \<open>successful_triggers\<close>, and
  raises a plain \<open>Exception\<close>; no retry is requested, since \<open>self.retry\<close> is called only
  in the handler of \<open>RequestException\<close>.
\<close>

theorem send_webhook_http_500_single_attempt:
  assumes "webhooks db wid = Some wh"
  shows "(case deliver (\<lambda>n. Response 500 body t) 0 now wid pl db of (out, db') \<Rightarrow>
           out = Raised (PlainException ''Webhook failed with status 500'')
         \<and> length (webhook_logs db') = length (webhook_logs db) + 1
         \<and> map retry_count (drop (length (webhook_logs db)) (webhook_logs db')) = [0]
         \<and> map_option failed_triggers (webhooks db' wid) = Some (failed_triggers wh + 1)
         \<and> map_option successful_triggers (webhooks db' wid) = Some (successful_triggers wh)
         \<and> map_option total_triggers (webhooks db' wid) = Some (total_triggers wh + 1))"
  using assms
  by (simp add: send_webhook_def Let_def record_trigger_def str_int_def digit_char_def)

theorem send_webhook_http_500_single_attempt_witness:
  "(case deliver (\<lambda>n. Response 500 ''oops'' 3) 0 0 1 ''{}''
          \<lparr>webhooks = [1 \<mapsto> created_webhook ''http://h'' ''upload.completed'' True ''s3cr3t''],
           webhook_logs = []\<rparr> of
      (out, db') \<Rightarrow>
        out = Raised (PlainException ''Webhook failed with status 500'')
      \<and> length (webhook_logs db') = 1
      \<and> map retry_count (webhook_logs db') = [0]
      \<and> map_option failed_triggers (webhooks db' 1) = Some 1
      \<and> map_option successful_triggers (webhooks db' 1) = Some 0
      \<and> map_option total_triggers (webhooks db' 1) = Some 1)"
  using send_webhook_http_500_single_attempt
    [of "\<lparr>webhooks = [1 \<mapsto> created_webhook ''http://h'' ''upload.completed'' True ''s3cr3t''],
           webhook_logs = []\<rparr>" 1
        "created_webhook ''http://h'' ''upload.completed'' True ''s3cr3t''" "''oops''" 3 0 "''{}''"]
  by (simp add: created_webhook_def)

section \<open>Properties of the upload job\<close>

text \<open>
  Claim C7 says that the progress percentage is \<open>floor(processed / total * 100)\<close>.  On
  binary64 numbers it is not: with 29000 of 100000 rows processed, a state the import of
  a file of 100000 rows is in after its 29th chunk, the quotient rounds to a number below
  0.29, the product to a number below 29, and the code gives 28 where the exact value is
  29.
\<close>

theorem progress_percentage_rounds_down_29_percent:
  "progress_percentage (created_job\<lparr>processed_rows := 29000, total_rows := 100000\<rparr>) = 28
   \<and> spec_progress_percentage (created_job\<lparr>processed_rows := 29000, total_rows := 100000\<rparr>) = 29"
  by (simp add: progress_percentage_def spec_progress_percentage_def created_job_def
      to_double_def scaled_def round_half_even_def Let_def)

section \<open>Properties of the import\<close>

text \<open>
  Claim C9.  A file with no record at all gives \<open>DictReader\<close> no field names, so the header
  check is skipped: the import returns its statistics with \<open>total\<close> 0, the job is
  \<open>completed\<close> with \<open>total_rows\<close> 0, no error entry is added and the product table is
  unchanged.  A file whose header record is \<open>description\<close> alone fails instead with the
  missing-column error.
\<close>

theorem empty_file_completes:
  "(case import_csv now (Inr []) imp of (r, imp') \<Rightarrow>
      r = Inr ((imp_stats imp)\<lparr>total := 0\<rparr>)
    \<and> status (upload_job imp') = Completed
    \<and> total_rows (upload_job imp') = 0
    \<and> error_details (upload_job imp') = error_details (upload_job imp)
    \<and> products imp' = products imp)
   \<and> fst (import_csv now (Inr [[''description'']]) imp)
       = Inl (ValueError ''Missing required column: name'')"
  by (simp add: import_csv_def import_csv_sized_def fieldnames_def dict_rows_def Let_def
      mark_as_processing_def mark_as_completed_def import_failed_def validate_headers_def
      REQUIRED_COLUMNS_def strip_def lower_def lower_char_def upper_chars_def lower_chars_def
      is_space_def)





text \<open>
  Claim C4 says that the error entry of a row with an empty SKU carries the row's number
  in the file.  In a file of two data rows whose first row has an empty SKU, the entry
  carries 3: \<open>stats['processed']\<close> already counts the whole chunk when \<open>process_chunk\<close>
  adds \<open>idx + 1\<close> to it.  The rest of the claim shows at the same input: the row is
  counted once as an error and once as a skip, and the second row of the chunk is still
  created.
\<close>

theorem empty_sku_row_number_counts_whole_chunk:
  "(case import_csv 0 (Inr [[''sku'', ''name''], ['''', ''A''], [''x'', ''B'']])
          (new_importer True created_job []) of
      (r, imp') \<Rightarrow>
        error_details (upload_job imp') =
          Some [\<lparr>entry_row = 3, entry_error = ''SKU is required and cannot be empty'',
                 entry_timestamp = 0\<rparr>]
      \<and> error_count (upload_job imp') = 1
      \<and> skipped_count (upload_job imp') = 1
      \<and> created_count (upload_job imp') = 1
      \<and> status (upload_job imp') = Completed)"
  by code_simp

text \<open>
  Claim C3 says that the counters close.  With \<open>skip_duplicates\<close> off, a table that holds
  SKU \<open>x\<close>, and the data rows \<open>x\<close>, \<open>a\<close>, \<open>a\<close>, they do not: \<open>bulk_create\<close> raises on the
  second \<open>a\<close>, the \<open>except\<close> branch saves the create set row by row, and the update of \<open>x\<close>
  is neither applied nor counted.  The job completes with \<open>processed_rows = total_rows = 3\<close>,
  one row created, none updated, one row-level error and no duplicate skip, so that
  created + updated + duplicate skips is 1 and processed - errors is 2.
\<close>

theorem fallback_drops_update_from_counters:
  "(case import_csv 0 (Inr [[''sku'', ''name''], [''x'', ''n1''], [''a'', ''n2''], [''a'', ''n3'']])
          (new_importer False created_job
             [(1, \<lparr>sku = ''X'', sku_lower = ''x'', name = ''old'', description = [],
                    is_active = True\<rparr>)]) of
      (r, imp') \<Rightarrow>
        r = Inr \<lparr>total = 3, processed = 3, created = 1, updated = 0, skipped = 1, errors = 1\<rparr>
      \<and> status (upload_job imp') = Completed
      \<and> processed_rows (upload_job imp') = 3 \<and> total_rows (upload_job imp') = 3
      \<and> created_count (upload_job imp') = 1 \<and> updated_count (upload_job imp') = 0
      \<and> skipped_count (upload_job imp') = 1 \<and> error_count (upload_job imp') = 1
      \<and> created_count (upload_job imp') + updated_count (upload_job imp')
          + (skipped_count (upload_job imp') - error_count (upload_job imp'))
          \<noteq> processed_rows (upload_job imp') - error_count (upload_job imp')
      \<and> map (\<lambda>(i, p). (sku p, name p)) (products imp') = [(''X'', ''old''), (''a'', ''n2'')])"
  by code_simp

subsection \<open>The fallback after a failed bulk operation\<close>

lemma atomic_bulk_raises_stats:
  assumes "atomic_bulk skip to_create to_update st0 tbl = Inl (e, st)"
  shows "updated st = updated st0 \<and> created st = created st0 \<and> errors st = errors st0
       \<and> processed st = processed st0 \<and> total st = total st0"
  using assms
  by (auto simp: atomic_bulk_def Let_def split: if_splits sum.splits prod.splits)

lemma save_cases:
  "save p tbl = Inl unique_violation
   \<or> save p tbl = Inr (tbl @ [(fresh_pk tbl, p\<lparr>sku_lower := strip (lower (sku p))\<rparr>)])"
  by (simp add: save_def Let_def)

lemma save_each_effect:
  "\<exists>new failed.
      products (save_each now ps imp) = products imp @ new
    \<and> set (map snd new) \<subseteq> (\<lambda>p. p\<lparr>sku_lower := strip (lower (sku p))\<rparr>) ` set ps
    \<and> set failed \<subseteq> set ps
    \<and> (case error_details (upload_job (save_each now ps imp)) of None \<Rightarrow> [] | Some es \<Rightarrow> es) =
        (case error_details (upload_job imp) of None \<Rightarrow> [] | Some es \<Rightarrow> es) @
        map (\<lambda>p. \<lparr>entry_row = processed (imp_stats imp),
                   entry_error = ''SKU '' @ sku p @ '': '' @ str_exc unique_violation,
                   entry_timestamp = now\<rparr>) failed
    \<and> created (imp_stats (save_each now ps imp)) = created (imp_stats imp) + int (length new)
    \<and> errors (imp_stats (save_each now ps imp)) = errors (imp_stats imp) + int (length failed)
    \<and> length new + length failed = length ps
    \<and> updated (imp_stats (save_each now ps imp)) = updated (imp_stats imp)
    \<and> processed (imp_stats (save_each now ps imp)) = processed (imp_stats imp)"
proof (induction ps arbitrary: imp)
  case Nil
  show ?case by simp
next
  case (Cons p ps)
  let ?p' = "p\<lparr>sku_lower := strip (lower (sku p))\<rparr>"
  from save_cases [of p "products imp"] show ?case
  proof
    assume f: "save p (products imp) = Inl unique_violation"
    let ?imp1 = "imp\<lparr>imp_stats := (imp_stats imp)\<lparr>errors := errors (imp_stats imp) + 1,
                                                    skipped := skipped (imp_stats imp) + 1\<rparr>,
                     upload_job := add_error now (processed (imp_stats imp))
                                     (''SKU '' @ sku p @ '': '' @ str_exc unique_violation)
                                     (upload_job imp)\<rparr>"
    from f have step: "save_each now (p # ps) imp = save_each now ps ?imp1" by simp
    from Cons.IH [of ?imp1] obtain new failed where
      ih: "products (save_each now ps ?imp1) = products ?imp1 @ new"
          "set (map snd new) \<subseteq> (\<lambda>p. p\<lparr>sku_lower := strip (lower (sku p))\<rparr>) ` set ps"
          "set failed \<subseteq> set ps"
          "(case error_details (upload_job (save_each now ps ?imp1)) of None \<Rightarrow> [] | Some es \<Rightarrow> es) =
           (case error_details (upload_job ?imp1) of None \<Rightarrow> [] | Some es \<Rightarrow> es) @
           map (\<lambda>p. \<lparr>entry_row = processed (imp_stats ?imp1),
                      entry_error = ''SKU '' @ sku p @ '': '' @ str_exc unique_violation,
                      entry_timestamp = now\<rparr>) failed"
          "created (imp_stats (save_each now ps ?imp1)) = created (imp_stats ?imp1) + int (length new)"
          "errors (imp_stats (save_each now ps ?imp1)) = errors (imp_stats ?imp1) + int (length failed)"
          "length new + length failed = length ps"
          "updated (imp_stats (save_each now ps ?imp1)) = updated (imp_stats ?imp1)"
          "processed (imp_stats (save_each now ps ?imp1)) = processed (imp_stats ?imp1)"
      by blast
    show ?thesis
      apply (rule exI [of _ new])
      apply (rule exI [of _ "p # failed"])
      unfolding step
      using ih by (auto simp: add_error_def)
  next
    assume s: "save p (products imp) = Inr (products imp @ [(fresh_pk (products imp), ?p')])"
    let ?imp1 = "imp\<lparr>products := products imp @ [(fresh_pk (products imp), ?p')],
                     imp_stats := (imp_stats imp)\<lparr>created := created (imp_stats imp) + 1\<rparr>\<rparr>"
    from s have step: "save_each now (p # ps) imp = save_each now ps ?imp1" by simp
    from Cons.IH [of ?imp1] obtain new failed where
      ih: "products (save_each now ps ?imp1) = products ?imp1 @ new"
          "set (map snd new) \<subseteq> (\<lambda>p. p\<lparr>sku_lower := strip (lower (sku p))\<rparr>) ` set ps"
          "set failed \<subseteq> set ps"
          "(case error_details (upload_job (save_each now ps ?imp1)) of None \<Rightarrow> [] | Some es \<Rightarrow> es) =
           (case error_details (upload_job ?imp1) of None \<Rightarrow> [] | Some es \<Rightarrow> es) @
           map (\<lambda>p. \<lparr>entry_row = processed (imp_stats ?imp1),
                      entry_error = ''SKU '' @ sku p @ '': '' @ str_exc unique_violation,
                      entry_timestamp = now\<rparr>) failed"
          "created (imp_stats (save_each now ps ?imp1)) = created (imp_stats ?imp1) + int (length new)"
          "errors (imp_stats (save_each now ps ?imp1)) = errors (imp_stats ?imp1) + int (length failed)"
          "length new + length failed = length ps"
          "updated (imp_stats (save_each now ps ?imp1)) = updated (imp_stats ?imp1)"
          "processed (imp_stats (save_each now ps ?imp1)) = processed (imp_stats ?imp1)"
      by blast
    show ?thesis
      apply (rule exI [of _ "(fresh_pk (products imp), ?p') # new"])
      apply (rule exI [of _ failed])
      unfolding step
      using ih by auto
  qed
qed


text \<open>
  Claim C10.  When the body of the atomic block raises for a chunk (\<open>atomic_bulk\<close> gives
  an exception), \<open>process_chunk\<close> goes on with the \<open>except\<close> branch alone: the objects of
  the create set are saved one by one.  The rows that were in the table stay as they were
  and come first, so no update of the chunk is applied; every added row is an object of the
  create set, and every object of the create set is either added or recorded as failed;
  \<open>updated\<close> is what it was before the chunk; and the only error entries added are those
  of the failed objects of the create set.
\<close>

theorem bulk_failure_retries_create_set_only:
  assumes "atomic_bulk (skip_duplicates imp) to_create to_update (imp_stats imp) (products imp)
           = Inl (e, st)"
  shows "\<exists>new failed.
      bulk_stage now to_create to_update imp = save_each now to_create (imp\<lparr>imp_stats := st\<rparr>)
    \<and> products (bulk_stage now to_create to_update imp) = products imp @ new
    \<and> set (map snd new) \<subseteq> (\<lambda>p. p\<lparr>sku_lower := strip (lower (sku p))\<rparr>) ` set to_create
    \<and> set failed \<subseteq> set to_create
    \<and> length new + length failed = length to_create
    \<and> (case error_details (upload_job (bulk_stage now to_create to_update imp)) of
          None \<Rightarrow> [] | Some es \<Rightarrow> es) =
        (case error_details (upload_job imp) of None \<Rightarrow> [] | Some es \<Rightarrow> es) @
        map (\<lambda>p. \<lparr>entry_row = processed (imp_stats imp),
                   entry_error = ''SKU '' @ sku p @ '': '' @ str_exc unique_violation,
                   entry_timestamp = now\<rparr>) failed
    \<and> updated (imp_stats (bulk_stage now to_create to_update imp)) = updated (imp_stats imp)
    \<and> created (imp_stats (bulk_stage now to_create to_update imp))
        = created (imp_stats imp) + int (length new)
    \<and> errors (imp_stats (bulk_stage now to_create to_update imp))
        = errors (imp_stats imp) + int (length failed)"
proof -
  let ?imp1 = "imp\<lparr>imp_stats := st\<rparr>"
  have stage: "bulk_stage now to_create to_update imp = save_each now to_create ?imp1"
    using assms by (simp add: bulk_stage_def)
  have st: "updated st = updated (imp_stats imp)" "created st = created (imp_stats imp)"
    "errors st = errors (imp_stats imp)" "processed st = processed (imp_stats imp)"
    using atomic_bulk_raises_stats [OF assms] by simp_all
  from save_each_effect [of now to_create ?imp1] obtain new failed where
    eff: "products (save_each now to_create ?imp1) = products ?imp1 @ new"
      "set (map snd new) \<subseteq> (\<lambda>p. p\<lparr>sku_lower := strip (lower (sku p))\<rparr>) ` set to_create"
      "set failed \<subseteq> set to_create"
      "(case error_details (upload_job (save_each now to_create ?imp1)) of
          None \<Rightarrow> [] | Some es \<Rightarrow> es) =
       (case error_details (upload_job ?imp1) of None \<Rightarrow> [] | Some es \<Rightarrow> es) @
       map (\<lambda>p. \<lparr>entry_row = processed (imp_stats ?imp1),
                  entry_error = ''SKU '' @ sku p @ '': '' @ str_exc unique_violation,
                  entry_timestamp = now\<rparr>) failed"
      "created (imp_stats (save_each now to_create ?imp1)) = created (imp_stats ?imp1) + int (length new)"
      "errors (imp_stats (save_each now to_create ?imp1)) = errors (imp_stats ?imp1) + int (length failed)"
      "length new + length failed = length to_create"
      "updated (imp_stats (save_each now to_create ?imp1)) = updated (imp_stats ?imp1)"
    by blast
  show ?thesis
    apply (rule exI [of _ new])
    apply (rule exI [of _ failed])
    unfolding stage
    using eff st by simp
qed

theorem bulk_failure_retries_create_set_only_witness:
  "atomic_bulk False
     [\<lparr>sku = ''a'', sku_lower = ''a'', name = ''n2'', description = [], is_active = True\<rparr>,
      \<lparr>sku = ''a'', sku_lower = ''a'', name = ''n3'', description = [], is_active = True\<rparr>]
     [(1, \<lparr>sku = ''x'', sku_lower = ''x'', name = ''n1'', description = [], is_active = True\<rparr>)]
     \<lparr>total = 3, processed = 3, created = 0, updated = 0, skipped = 0, errors = 0\<rparr>
     [(1, \<lparr>sku = ''X'', sku_lower = ''x'', name = ''old'', description = [], is_active = True\<rparr>)]
   = Inl (unique_violation,
          \<lparr>total = 3, processed = 3, created = 0, updated = 0, skipped = 0, errors = 0\<rparr>)
   \<and> (let imp' = bulk_stage 7
          [\<lparr>sku = ''a'', sku_lower = ''a'', name = ''n2'', description = [], is_active = True\<rparr>,
           \<lparr>sku = ''a'', sku_lower = ''a'', name = ''n3'', description = [], is_active = True\<rparr>]
          [(1, \<lparr>sku = ''x'', sku_lower = ''x'', name = ''n1'', description = [], is_active = True\<rparr>)]
          \<lparr>skip_duplicates = False,
           imp_stats = \<lparr>total = 3, processed = 3, created = 0, updated = 0, skipped = 0, errors = 0\<rparr>,
           upload_job = created_job,
           products = [(1, \<lparr>sku = ''X'', sku_lower = ''x'', name = ''old'', description = [],
                            is_active = True\<rparr>)]\<rparr>
       in products imp' =
            [(1, \<lparr>sku = ''X'', sku_lower = ''x'', name = ''old'', description = [], is_active = True\<rparr>),
             (2, \<lparr>sku = ''a'', sku_lower = ''a'', name = ''n2'', description = [], is_active = True\<rparr>)]
        \<and> imp_stats imp' =
            \<lparr>total = 3, processed = 3, created = 1, updated = 0, skipped = 1, errors = 1\<rparr>
        \<and> error_details (upload_job imp') =
            Some [\<lparr>entry_row = 3,
                   entry_error = ''SKU a: duplicate key value violates unique constraint'',
                   entry_timestamp = 7\<rparr>])"
  using bulk_failure_retries_create_set_only
    [where now = 7
       and to_create =
         "[\<lparr>sku = ''a'', sku_lower = ''a'', name = ''n2'', description = [], is_active = True\<rparr>,
           \<lparr>sku = ''a'', sku_lower = ''a'', name = ''n3'', description = [], is_active = True\<rparr>]"
       and to_update =
         "[(1, \<lparr>sku = ''x'', sku_lower = ''x'', name = ''n1'', description = [], is_active = True\<rparr>)]"
       and imp =
         "\<lparr>skip_duplicates = False,
           imp_stats = \<lparr>total = 3, processed = 3, created = 0, updated = 0, skipped = 0, errors = 0\<rparr>,
           upload_job = created_job,
           products = [(1, \<lparr>sku = ''X'', sku_lower = ''x'', name = ''old'', description = [],
                            is_active = True\<rparr>)]\<rparr>"
       and e = unique_violation
       and st = "\<lparr>total = 3, processed = 3, created = 0, updated = 0, skipped = 0, errors = 0\<rparr>"]
  by (simp add: atomic_bulk_def bulk_stage_def save_def fresh_pk_def unique_violation_def
      add_error_def created_job_def Let_def strip_def lower_def lower_char_def upper_chars_def
      lower_chars_def is_space_def)

subsection \<open>Importing a file twice\<close>

lemma not_space_a: "\<not> is_space CHR ''a''" "\<not> is_space CHR ''b''" "is_space CHR '' ''"
  by (simp_all add: is_space_def)

lemma lower_char_a: "lower_char CHR ''a'' = CHR ''a''" "lower_char CHR '' '' = CHR '' ''"
  by (simp_all add: lower_char_def upper_chars_def lower_chars_def)

lemma split_from_replicate:
  "\<not> is_space c \<Longrightarrow> split_from w (replicate n c @ rest) = split_from (replicate n c @ w) rest"
  by (induction n arbitrary: w) (simp_all add: replicate_app_Cons_same)

lemma strip_no_space_ends:
  assumes "xs \<noteq> []" and "\<not> is_space (hd xs)" and "\<not> is_space (last xs)"
  shows "strip xs = xs"
proof -
  from assms(1,2) have a: "dropWhile is_space xs = xs" by (cases xs) simp_all
  from assms(1,3) have "dropWhile is_space (rev xs) = rev xs"
    by (cases "rev xs") (simp_all add: hd_rev [symmetric])
  with a show ?thesis by (simp add: strip_def)
qed

lemma long_sku_facts:
  "clean_value (Some (replicate 254 CHR ''a'' @ '' b'')) = replicate 254 CHR ''a'' @ '' b''"
  "strip (replicate 254 CHR ''a'' @ '' b'') = replicate 254 CHR ''a'' @ '' b''"
  "take 255 (replicate 254 CHR ''a'' @ '' b'') = replicate 254 CHR ''a'' @ '' ''"
  "strip (replicate 254 CHR ''a'' @ '' '') = replicate 254 CHR ''a''"
  "lower (replicate 254 CHR ''a'' @ '' '') = replicate 254 CHR ''a'' @ '' ''"
  "lower (replicate 254 CHR ''a'') = replicate 254 CHR ''a''"
  "replicate 254 CHR ''a'' @ '' '' \<noteq> replicate 254 CHR ''a''"
proof -
  have hd_last: "hd (replicate 254 CHR ''a'' @ '' b'') = CHR ''a''"
    "last (replicate 254 CHR ''a'' @ '' b'') = CHR ''b''"
    "hd (replicate 254 CHR ''a'') = CHR ''a''" "last (replicate 254 CHR ''a'') = CHR ''a''"
    by (simp_all add: hd_append)
  show s2: "strip (replicate 254 CHR ''a'' @ '' b'') = replicate 254 CHR ''a'' @ '' b''"
    by (rule strip_no_space_ends) (simp_all add: hd_last not_space_a)
  have "split_ws (replicate 254 CHR ''a'' @ '' b'') = [replicate 254 CHR ''a'', ''b'']"
    unfolding split_ws_def
    by (simp only: split_from_replicate [OF not_space_a(1)] append_Nil2)
       (simp add: not_space_a)
  then show "clean_value (Some (replicate 254 CHR ''a'' @ '' b'')) = replicate 254 CHR ''a'' @ '' b''"
    using s2 by (simp add: clean_value_def)
  show "take 255 (replicate 254 CHR ''a'' @ '' b'') = replicate 254 CHR ''a'' @ '' ''"
    by simp
  have "dropWhile is_space (replicate 254 CHR ''a'') = replicate 254 CHR ''a''"
    by (simp add: not_space_a)
  then show "strip (replicate 254 CHR ''a'' @ '' '') = replicate 254 CHR ''a''"
    by (simp add: strip_def not_space_a)
  show "lower (replicate 254 CHR ''a'' @ '' '') = replicate 254 CHR ''a'' @ '' ''"
    by (simp add: lower_def lower_char_a)
  show "lower (replicate 254 CHR ''a'') = replicate 254 CHR ''a''"
    by (simp add: lower_def lower_char_a)
  show "replicate 254 CHR ''a'' @ '' '' \<noteq> replicate 254 CHR ''a''"
    by simp
qed

lemmas string_defs = strip_def lower_def lower_char_def upper_chars_def lower_chars_def
  is_space_def split_ws_def clean_value_def

lemma header_keys:
  "strip (lower ''sku'') = ''sku''" "strip (lower ''name'') = ''name''"
  "clean_value (Some ''n'') = ''n''" "strip ''n'' = ''n''"
  by (simp_all add: string_defs)

lemma validate_headers_sku_name: "validate_headers [''sku'', ''name''] = (True, [])"
  by (simp add: validate_headers_def REQUIRED_COLUMNS_def header_keys)

lemma reimport_truncated_sku:
  assumes "clean_value (Some s) = s" and "strip s = s" and "s \<noteq> []"
    and "take 255 s = t" and "strip t = u" and "u \<noteq> []" and "lower t = t" and "lower u = u"
    and "t \<noteq> u"
  shows "(let f = [[''sku'', ''name''], [s, ''n'']] in
    case import_csv 0 (Inr f) (new_importer True created_job []) of
      (r1, imp1) \<Rightarrow>
        (case import_csv 1 (Inr f) (new_importer True created_job (products imp1)) of
           (r2, imp2) \<Rightarrow>
             products imp1 =
               [(1, \<lparr>sku = t, sku_lower = u, name = ''n'', description = [], is_active = True\<rparr>)]
           \<and> created_count (upload_job imp1) = 1
           \<and> error_count (upload_job imp1) = 0
           \<and> status (upload_job imp2) = Completed
           \<and> created_count (upload_job imp2) = 0
           \<and> updated_count (upload_job imp2) = 0
           \<and> skipped_count (upload_job imp2) = 1
           \<and> error_count (upload_job imp2) = 0
           \<and> products imp2 = products imp1))"
proof -
  have "u \<noteq> t" using assms(9) by simp
  with assms show ?thesis
    by (simp add: import_csv_def import_csv_sized_def CHUNK_SIZE_def fieldnames_def dict_rows_def
        dict_row_def validate_headers_sku_name normalize_row_def process_chunk_def in_bulk_def
        bulk_stage_def atomic_bulk_def fresh_pk_def update_progress_def mark_as_processing_def
        mark_as_completed_def new_importer_def created_job_def List.map_filter_def Let_def
        dict_get_def header_keys)
qed

text \<open>
  Claim C6 says that a second import of the same file creates nothing and updates every
  valid row.  Take the file with the header \<open>sku,name\<close> and one data row whose SKU is 254
  times \<open>a\<close>, a space and \<open>b\<close> (256 characters).  \<open>normalize_row\<close> cuts the SKU to 255
  characters after trimming it, so the stored \<open>sku\<close> ends with the space, and \<open>sku_lower\<close>
  is the trimmed lower-case SKU, 254 characters.  The first import creates the product.
  In the second import the product is fetched by its \<open>sku_lower\<close>, but the loop looks it up
  under \<open>row['sku'].lower()\<close>, which still ends with the space: the row goes to the create
  set again, \<open>bulk_create\<close> drops it as a conflict, and the job completes with nothing
  created, nothing updated and one row skipped, where the claim has one update.
\<close>

theorem reimport_of_truncated_sku_updates_nothing:
  "(let f = [[''sku'', ''name''], [replicate 254 CHR ''a'' @ '' b'', ''n'']] in
    case import_csv 0 (Inr f) (new_importer True created_job []) of
      (r1, imp1) \<Rightarrow>
        (case import_csv 1 (Inr f) (new_importer True created_job (products imp1)) of
           (r2, imp2) \<Rightarrow>
             products imp1 =
               [(1, \<lparr>sku = replicate 254 CHR ''a'' @ '' '', sku_lower = replicate 254 CHR ''a'',
                      name = ''n'', description = [], is_active = True\<rparr>)]
           \<and> created_count (upload_job imp1) = 1
           \<and> error_count (upload_job imp1) = 0
           \<and> status (upload_job imp2) = Completed
           \<and> created_count (upload_job imp2) = 0
           \<and> updated_count (upload_job imp2) = 0
           \<and> skipped_count (upload_job imp2) = 1
           \<and> error_count (upload_job imp2) = 0
           \<and> products imp2 = products imp1))"
  by (rule reimport_truncated_sku) (simp_all add: long_sku_facts)

subsection \<open>Rows whose SKUs differ only in case\<close>




















end
